theory Spec2Isabelle
  imports Main "HOL-Library.Sublist"
begin

section \<open>JavaScript helpers used by the heading code\<close>

text \<open>
  Heading levels are JavaScript numbers that only ever hold integers here (literals
  \<open>1..6\<close>, \<open>parseInt\<close> of a digit, counters), so they are modelled as \<open>int\<close>.
  A template literal \<open>`H${n}`\<close> prints an integer in decimal, with a minus sign when
  negative.
\<close>

definition digitChar :: "nat \<Rightarrow> char" where
  "digitChar d = ''0123456789'' ! d"

fun natStr :: "nat \<Rightarrow> string" where
  "natStr n = (if n < 10 then [digitChar n] else natStr (n div 10) @ [digitChar (n mod 10)])"

declare natStr.simps [simp del]

definition numStr :: "int \<Rightarrow> string" where
  "numStr i = (if i < 0 then CHR ''-'' # natStr (nat (- i)) else natStr (nat i))"

definition isDigit :: "char \<Rightarrow> bool" where
  "isDigit c = (c \<in> set ''0123456789'')"

definition digitValue :: "char \<Rightarrow> int" where
  "digitValue c = int (of_char c) - 48"

text \<open>
  \<open>parseInt\<close> reads the leading decimal digits. Both call sites pass one character that
  a regular expression has already restricted to \<open>[1-6]\<close>, so the \<open>NaN\<close> result for a
  string without leading digit is never produced there.
\<close>

definition parseInt :: "string \<Rightarrow> int" where
  "parseInt s = foldl (\<lambda>a c. 10 * a + digitValue c) 0 (takeWhile isDigit s)"

definition charAt :: "string \<Rightarrow> nat \<Rightarrow> string" where
  "charAt s i = (if i < length s then [s ! i] else [])"

text \<open>
  Upper-casing of the ASCII letters; it serves \<open>String.prototype.toUpperCase\<close> on tag
  names and the canonicalisation of the \<open>i\<close> flag of a regular expression.
\<close>

definition upperChar :: "char \<Rightarrow> char" where
  "upperChar c =
     (case map_of (zip ''abcdefghijklmnopqrstuvwxyz'' ''ABCDEFGHIJKLMNOPQRSTUVWXYZ'') c of
        Some u \<Rightarrow> u
      | None \<Rightarrow> c)"

definition toUpperCase :: "string \<Rightarrow> string" where
  "toUpperCase s = map upperChar s"

definition includesStr :: "string \<Rightarrow> string \<Rightarrow> bool" where
  "includesStr s sub = sublist sub s"


section \<open>HeadingProvider: the render-time tracker (components/ui/Heading.tsx)\<close>

text \<open>
  \<open>HeadingProvider\<close> keeps one state cell, \<open>currentLevel\<close>, initialised by
  \<open>useState(initialLevel)\<close> with \<open>initialLevel = 0\<close> by default. The context it offers
  has exactly two members: \<open>level\<close> (the cell) and \<open>registerHeading\<close>.

  \<open>registerHeading\<close> is declared \<open>(level: number) => void\<close>. One call is modelled by
  everything it does: the messages passed to \<open>console.warn\<close>, the value the caller
  receives (the body has no \<open>return\<close>, so it is always \<open>undefined\<close>, written \<open>None\<close>),
  and the value handed to \<open>setCurrentLevel\<close>. \<open>nodeEnv\<close> is \<open>process.env.NODE_ENV\<close>.
\<close>

record registerOutcome =
  warned :: "string list"
  returned :: "string option"
  nextLevel :: int

definition mountProvider :: "int option \<Rightarrow> int" where
  "mountProvider initialLevel = (case initialLevel of None \<Rightarrow> 0 | Some l \<Rightarrow> l)"

definition registerHeading :: "string \<Rightarrow> int \<Rightarrow> int \<Rightarrow> registerOutcome" where
  "registerHeading nodeEnv currentLevel level =
     \<lparr> warned =
         (if nodeEnv = ''development'' then
            (if level > currentLevel + 1 then
               [''Heading hierarchy violation: Jumping from H'' @ numStr currentLevel @
                '' to H'' @ numStr level @ ''. '' @
                ''Consider using H'' @ numStr (currentLevel + 1) @ '' instead.'']
             else [])
          else []),
       returned = None,
       nextLevel = level \<rparr>"

text \<open>
  How the calls are scheduled. The only caller of \<open>registerHeading\<close> is the effect of
  a \<open>Heading\<close> (\<open>useEffect(() => registerHeading(actualLevel), [actualLevel,
  registerHeading])\<close>). \<open>registerHeading\<close> is a \<open>useCallback\<close> with the dependency
  \<open>currentLevel\<close>: the function a render hands out reads the \<open>currentLevel\<close> of that
  render, and \<open>setCurrentLevel\<close> only queues an update. So all the effects that run
  after one render are checked against the same level, and the last queued level is the
  one stored.
\<close>

definition effectPass :: "string \<Rightarrow> int \<Rightarrow> int list \<Rightarrow> string list \<times> int" where
  "effectPass nodeEnv currentLevel levels =
     (concat (map (\<lambda>level. warned (registerHeading nodeEnv currentLevel level)) levels),
      last (currentLevel #
            map (\<lambda>level. nextLevel (registerHeading nodeEnv currentLevel level)) levels))"

text \<open>
  Mounting a provider around \<open>Heading\<close>s of the given levels, in document order. After
  the first pass of effects the provider renders again when the stored level has
  changed; \<open>registerHeading\<close> is then a new function, so every effect runs once more,
  against the new level. That second pass stores the same level again and nothing
  further happens. The result is the list of all warnings and the stored level.
\<close>

definition registerAll :: "string \<Rightarrow> int \<Rightarrow> int list \<Rightarrow> string list \<times> int" where
  "registerAll nodeEnv currentLevel levels =
     (case effectPass nodeEnv currentLevel levels of
        (ws, stored) \<Rightarrow>
          if stored = currentLevel then (ws, stored)
          else (case effectPass nodeEnv stored levels of
                  (ws', stored') \<Rightarrow> (ws @ ws', stored')))"

text \<open>
  What a consumer of the context can do: the context value has the two members
  \<open>level\<close> and \<open>registerHeading\<close> (interface \<open>HeadingContextType\<close>) and no other.
  \<open>useMember\<close> is the level stored once the update queued by the use, if any, has been
  applied.
\<close>

datatype contextMember = ReadLevel | CallRegisterHeading int

definition useMember :: "string \<Rightarrow> int \<Rightarrow> contextMember \<Rightarrow> int" where
  "useMember nodeEnv currentLevel m =
     (case m of
        ReadLevel \<Rightarrow> currentLevel
      | CallRegisterHeading l \<Rightarrow> nextLevel (registerHeading nodeEnv currentLevel l))"


section \<open>validateHeadingHierarchy: the tree audit (components/ui/Heading.tsx)\<close>

text \<open>
  The values that can stand where a \<open>ReactNode\<close> is expected. \<open>Element ty c\<close> is a React
  element of type \<open>ty\<close> whose \<open>props.children\<close> is \<open>c\<close> (\<open>Nil\<close> when absent); a type is a
  tag name or anything that is not a string (function, class, fragment symbol).
  \<open>Nil\<close> is \<open>null\<close> or \<open>undefined\<close>, \<open>Callable\<close> a function, \<open>Portal\<close> a portal, and
  \<open>PlainObject\<close> any other object that is neither an element nor iterable (an object
  literal, a DOM node).
\<close>

datatype elementType = Tag string | Component

datatype node =
    Element elementType node
  | Text string
  | Number int
  | Boolean bool
  | Nil
  | Array "node list"
  | Callable
  | Portal
  | PlainObject

text \<open>
  \<open>React.Children.forEach\<close> raises "Objects are not valid as a React child" when it
  meets an object that is neither an element, a portal nor iterable.
\<close>

datatype auditError = ObjectsNotValidAsChild

text \<open>JavaScript truthiness, for the guard \<open>props && props.children\<close>.\<close>

fun truthy :: "node \<Rightarrow> bool" where
  "truthy (Text s) = (s \<noteq> [])"
| "truthy (Number n) = (n \<noteq> 0)"
| "truthy (Boolean b) = b"
| "truthy Nil = False"
| "truthy (Element ty c) = True"
| "truthy (Array xs) = True"
| "truthy Callable = True"
| "truthy Portal = True"
| "truthy PlainObject = True"

text \<open>The test \<open>/^h[1-6]$/\<close> on the element's type.\<close>

definition isHeadingTag :: "string \<Rightarrow> bool" where
  "isHeadingTag t =
     (case t of [c0, c1] \<Rightarrow> c0 = CHR ''h'' \<and> c1 \<in> set ''123456'' | _ \<Rightarrow> False)"

text \<open>The audit's two local variables: \<open>errors\<close> and \<open>lastLevel\<close>.\<close>

type_synonym auditState = "string list \<times> int"

definition visitElement :: "auditState \<Rightarrow> elementType \<Rightarrow> auditState" where
  "visitElement st ty =
     (case ty of
        Tag t \<Rightarrow>
          if isHeadingTag t then
            (let level = parseInt (charAt t 1);
                 errors = fst st;
                 lastLevel = snd st;
                 errors' =
                   (if level > lastLevel + 1 then
                      errors @
                      [''Heading hierarchy violation: Found '' @ toUpperCase t @
                       '' after H'' @ numStr lastLevel @ ''. '' @
                       ''Consider using H'' @ numStr (lastLevel + 1) @ '' instead.'']
                    else errors)
             in (errors', level))
          else st
      | Component \<Rightarrow> st)"

text \<open>
  \<open>traverse\<close> acts on valid elements only. \<open>childrenForEach\<close> is
  \<open>React.Children.forEach(children, traverse)\<close>: arrays are flattened, \<open>null\<close>,
  \<open>undefined\<close> and booleans reach the callback as \<open>null\<close>, functions are skipped, and a
  plain object raises.
\<close>

fun traverse :: "auditState \<Rightarrow> node \<Rightarrow> auditError + auditState"
and childrenForEach :: "auditState \<Rightarrow> node \<Rightarrow> auditError + auditState"
and childrenForEachItems :: "auditState \<Rightarrow> node list \<Rightarrow> auditError + auditState"
where
  "traverse st (Element ty children) =
     (let st1 = visitElement st ty
      in if truthy children then childrenForEach st1 children else Inr st1)"
| "traverse st (Text s) = Inr st"
| "traverse st (Number n) = Inr st"
| "traverse st (Boolean b) = Inr st"
| "traverse st Nil = Inr st"
| "traverse st (Array xs) = Inr st"
| "traverse st Callable = Inr st"
| "traverse st Portal = Inr st"
| "traverse st PlainObject = Inr st"
| "childrenForEach st (Array xs) = childrenForEachItems st xs"
| "childrenForEach st PlainObject = Inl ObjectsNotValidAsChild"
| "childrenForEach st Callable = Inr st"
| "childrenForEach st (Boolean b) = traverse st Nil"
| "childrenForEach st (Element ty children) = traverse st (Element ty children)"
| "childrenForEach st (Text s) = traverse st (Text s)"
| "childrenForEach st (Number n) = traverse st (Number n)"
| "childrenForEach st Nil = traverse st Nil"
| "childrenForEach st Portal = traverse st Portal"
| "childrenForEachItems st [] = Inr st"
| "childrenForEachItems st (x # xs) =
     (case childrenForEach st x of
        Inl e \<Rightarrow> Inl e
      | Inr st' \<Rightarrow> childrenForEachItems st' xs)"

definition validateHeadingHierarchy :: "node \<Rightarrow> auditError + string list" where
  "validateHeadingHierarchy element =
     (case traverse ([], 0) element of
        Inl e \<Rightarrow> Inl e
      | Inr st \<Rightarrow> Inr (fst st))"

subsection \<open>The heading sequence of a tree\<close>

text \<open>
  To speak of "a tree whose heading sequence is \<open>[2,4]\<close>": the levels of the elements
  whose type is one of the tags \<open>h1 .. h6\<close>, in document order (an element before its
  children, children from left to right).
\<close>

definition headingLevel :: "elementType \<Rightarrow> int list" where
  "headingLevel ty =
     (case ty of
        Tag t \<Rightarrow> if isHeadingTag t then [parseInt (charAt t 1)] else []
      | Component \<Rightarrow> [])"

fun levelsOf :: "node \<Rightarrow> int list"
and levelsOfChildren :: "node \<Rightarrow> int list"
and levelsOfItems :: "node list \<Rightarrow> int list"
where
  "levelsOf (Element ty children) =
     headingLevel ty @ (if truthy children then levelsOfChildren children else [])"
| "levelsOf (Text s) = []"
| "levelsOf (Number n) = []"
| "levelsOf (Boolean b) = []"
| "levelsOf Nil = []"
| "levelsOf (Array xs) = []"
| "levelsOf Callable = []"
| "levelsOf Portal = []"
| "levelsOf PlainObject = []"
| "levelsOfChildren (Array xs) = levelsOfItems xs"
| "levelsOfChildren PlainObject = []"
| "levelsOfChildren Callable = []"
| "levelsOfChildren (Boolean b) = []"
| "levelsOfChildren (Element ty children) = levelsOf (Element ty children)"
| "levelsOfChildren (Text s) = []"
| "levelsOfChildren (Number n) = []"
| "levelsOfChildren Nil = []"
| "levelsOfChildren Portal = []"
| "levelsOfItems [] = []"
| "levelsOfItems (x # xs) = levelsOfChildren x @ levelsOfItems xs"

text \<open>
  A tree is auditable when no plain object stands among the children the traversal
  hands to \<open>React.Children.forEach\<close>.
\<close>

fun auditable :: "node \<Rightarrow> bool"
and validChildren :: "node \<Rightarrow> bool"
and validItems :: "node list \<Rightarrow> bool"
where
  "auditable (Element ty children) = (if truthy children then validChildren children else True)"
| "auditable (Text s) = True"
| "auditable (Number n) = True"
| "auditable (Boolean b) = True"
| "auditable Nil = True"
| "auditable (Array xs) = True"
| "auditable Callable = True"
| "auditable Portal = True"
| "auditable PlainObject = True"
| "validChildren (Array xs) = validItems xs"
| "validChildren PlainObject = False"
| "validChildren Callable = True"
| "validChildren (Boolean b) = True"
| "validChildren (Element ty children) = auditable (Element ty children)"
| "validChildren (Text s) = True"
| "validChildren (Number n) = True"
| "validChildren Nil = True"
| "validChildren Portal = True"
| "validItems [] = True"
| "validItems (x # xs) = (validChildren x \<and> validItems xs)"

text \<open>
  What the audit reports for a sequence of heading levels met in this order, starting
  from \<open>lastLevel\<close>; \<open>stepwiseLegal\<close> says that no heading is more than one level below
  the heading just before it.
\<close>

fun auditMessages :: "int \<Rightarrow> int list \<Rightarrow> string list" where
  "auditMessages lastLevel [] = []"
| "auditMessages lastLevel (level # rest) =
     (if level > lastLevel + 1 then
        [''Heading hierarchy violation: Found H'' @ numStr level @
         '' after H'' @ numStr lastLevel @ ''. '' @
         ''Consider using H'' @ numStr (lastLevel + 1) @ '' instead.'']
      else []) @ auditMessages level rest"

fun stepwiseLegal :: "int \<Rightarrow> int list \<Rightarrow> bool" where
  "stepwiseLegal lastLevel [] = True"
| "stepwiseLegal lastLevel (level # rest) =
     (level \<le> lastLevel + 1 \<and> stepwiseLegal level rest)"

text \<open>A page fragment: a \<open>div\<close> holding one heading element per level, each with a text.\<close>

definition headingElement :: "int \<Rightarrow> node" where
  "headingElement level = Element (Tag (CHR ''h'' # numStr level)) (Text ''Title'')"

definition pageOf :: "int list \<Rightarrow> node" where
  "pageOf levels = Element (Tag ''div'') (Array (map headingElement levels))"


section \<open>The command-line audit (scripts/audit-heading-hierarchy.js)\<close>

subsection \<open>HEADING\_PATTERNS and extractHeadings\<close>

text \<open>
  The four regular expressions have one shape, \<open><h([1-6])[^>]*>\<close> or, for the
  self-closing ones, \<open><h([1-6])[^>]*\/>\<close>, all with the flags \<open>g\<close> and \<open>i\<close>. A pattern
  is recorded by the letter written after \<open><\<close>, whether it ends in \<open>\/>\<close>, and the
  \<open>i\<close> flag. The list keeps the order of \<open>Object.entries\<close>.
\<close>

record headingPattern =
  tagLetter :: char
  closingSlash :: bool
  ignoreCase :: bool

definition jsxPattern :: headingPattern where
  "jsxPattern = \<lparr>tagLetter = CHR ''h'', closingSlash = False, ignoreCase = True\<rparr>"

definition componentPattern :: headingPattern where
  "componentPattern = \<lparr>tagLetter = CHR ''H'', closingSlash = False, ignoreCase = True\<rparr>"

definition selfClosingPattern :: headingPattern where
  "selfClosingPattern = \<lparr>tagLetter = CHR ''h'', closingSlash = True, ignoreCase = True\<rparr>"

definition componentSelfClosingPattern :: headingPattern where
  "componentSelfClosingPattern =
     \<lparr>tagLetter = CHR ''H'', closingSlash = True, ignoreCase = True\<rparr>"

definition HEADING_PATTERNS :: "(string \<times> headingPattern) list" where
  "HEADING_PATTERNS =
     [(''jsx'', jsxPattern),
      (''component'', componentPattern),
      (''selfClosing'', selfClosingPattern),
      (''componentSelfClosing'', componentSelfClosingPattern)]"

definition letterMatches :: "headingPattern \<Rightarrow> char \<Rightarrow> bool" where
  "letterMatches pat c =
     (if ignoreCase pat then upperChar c = upperChar (tagLetter pat) else c = tagLetter pat)"

text \<open>
  A match attempt at the start of \<open>s\<close>, giving the matched text and group 1. The class
  \<open>[^>]*\<close> is greedy and cannot cross a \<open>>\<close>, so a match ends at the first \<open>>\<close> after
  the digit; a self-closing pattern moreover needs a \<open>/\<close> just before that \<open>>\<close>.
\<close>

definition matchHere :: "headingPattern \<Rightarrow> string \<Rightarrow> (string \<times> string) option" where
  "matchHere pat s =
     (case s of
        c0 # c1 # c2 # rest \<Rightarrow>
          if c0 = CHR ''<'' \<and> letterMatches pat c1 \<and> c2 \<in> set ''123456'' then
            (let attrs = takeWhile (\<lambda>c. c \<noteq> CHR ''>'') rest in
             if length attrs < length rest \<and>
                (if closingSlash pat then attrs \<noteq> [] \<and> last attrs = CHR ''/'' else True)
             then Some (c0 # c1 # c2 # attrs @ ''>'', [c2])
             else None)
          else None
      | _ \<Rightarrow> None)"

text \<open>
  \<open>pattern.exec(content)\<close> with the \<open>g\<close> flag: the leftmost match at or after
  \<open>lastIndex\<close>, as (index, matched text, group 1); afterwards \<open>lastIndex\<close> is the end
  of the match.
\<close>

fun search :: "headingPattern \<Rightarrow> string \<Rightarrow> nat \<Rightarrow> (nat \<times> string \<times> string) option" where
  "search pat [] i = None"
| "search pat (c # cs) i =
     (case matchHere pat (c # cs) of
        Some (m, g) \<Rightarrow> Some (i, m, g)
      | None \<Rightarrow> search pat cs (Suc i))"

definition exec :: "headingPattern \<Rightarrow> string \<Rightarrow> nat \<Rightarrow> (nat \<times> string \<times> string) option" where
  "exec pat content lastIndex = search pat (drop lastIndex content) lastIndex"

lemma matchHere_nonempty: "matchHere pat s = Some (m, g) \<Longrightarrow> m \<noteq> []"
  by (auto simp: matchHere_def Let_def split: list.splits if_splits)

lemma search_index:
  "search pat s k = Some (i, m, g) \<Longrightarrow> k \<le> i \<and> i < k + length s \<and> m \<noteq> []"
proof (induction s arbitrary: k)
  case Nil
  then show ?case by simp
next
  case (Cons c cs)
  show ?case
  proof (cases "matchHere pat (c # cs)")
    case None
    with Cons.prems have "search pat cs (Suc k) = Some (i, m, g)" by simp
    from Cons.IH[OF this] show ?thesis by simp
  next
    case (Some r)
    with Cons.prems matchHere_nonempty[of pat "c # cs" m g] show ?thesis
      by (cases r) auto
  qed
qed

lemma exec_progress:
  assumes "exec pat content lastIndex = Some (i, m, g)"
  shows "length content - (i + length m) < length content - lastIndex"
proof -
  from assms have "lastIndex \<le> i \<and> i < lastIndex + length (drop lastIndex content) \<and> m \<noteq> []"
    unfolding exec_def by (rule search_index)
  then show ?thesis by (cases m) auto
qed

text \<open>The loop \<open>while ((match = pattern.exec(content)) !== null)\<close>.\<close>

function execAll :: "headingPattern \<Rightarrow> string \<Rightarrow> nat \<Rightarrow> (nat \<times> string \<times> string) list" where
  "execAll pat content lastIndex =
     (case exec pat content lastIndex of
        None \<Rightarrow> []
      | Some (i, m, g) \<Rightarrow> (i, m, g) # execAll pat content (i + length m))"
  by pat_completeness auto
termination
  by (relation "measure (\<lambda>(pat, content, lastIndex). length content - lastIndex)")
     (auto dest: exec_progress)

declare execAll.simps [simp del]

text \<open>
  A heading event. \<open>headingType\<close> is the field \<open>type\<close> and \<open>matchText\<close> the field
  \<open>match\<close> of the source. The line number is
  \<open>content.substring(0, match.index).split('\n').length\<close>.
\<close>

record heading =
  level :: int
  headingType :: string
  matchText :: string
  lineNumber :: nat
  filePath :: string

definition lineNumberAt :: "string \<Rightarrow> nat \<Rightarrow> nat" where
  "lineNumberAt content index =
     length (filter (\<lambda>c. c = CHR 0x0A) (take index content)) + 1"

definition patternHeadings ::
  "string \<Rightarrow> string \<Rightarrow> string \<times> headingPattern \<Rightarrow> heading list" where
  "patternHeadings content path entry =
     map (\<lambda>(i, m, g).
            \<lparr>level = parseInt g,
             headingType =
               (if includesStr (fst entry) ''component'' then ''component'' else ''html''),
             matchText = m,
             lineNumber = lineNumberAt content i,
             filePath = path\<rparr>)
         (execAll (snd entry) content 0)"

text \<open>\<open>Array.prototype.sort\<close> is stable, as \<open>sort_key\<close> is.\<close>

definition extractHeadings :: "string \<Rightarrow> string \<Rightarrow> heading list" where
  "extractHeadings content path =
     sort_key lineNumber (concat (map (patternHeadings content path) HEADING_PATTERNS))"

subsection \<open>validateFileHierarchy\<close>

datatype violation =
    HierarchySkip string string nat int int
  | MultipleH1 string string int

text \<open>
  \<open>HierarchySkip message filePath lineNumber level previousLevel\<close> is a violation of type
  \<open>hierarchy_skip\<close>, \<open>MultipleH1 message filePath count\<close> one of type \<open>multiple_h1\<close>.
  Of the global \<open>auditResults.summary\<close> the function touches two fields.
\<close>

record summary =
  h1Count :: int
  multipleH1Files :: "string list"

text \<open>The loop state: \<open>violations\<close>, \<open>lastLevel\<close> and the local \<open>h1Count\<close>.\<close>

type_synonym fileState = "violation list \<times> int \<times> int"

definition checkHeading :: "string \<Rightarrow> fileState \<Rightarrow> heading \<Rightarrow> fileState" where
  "checkHeading path st h =
     (case st of (violations, lastLevel, count) \<Rightarrow>
        (let count' = (if level h = 1 then count + 1 else count);
             violations' =
               (if level h > lastLevel + 1 then
                  violations @
                  [HierarchySkip
                     (''Heading hierarchy violation: H'' @ numStr (level h) @
                      '' follows H'' @ numStr lastLevel @
                      '' (skipped H'' @ numStr (lastLevel + 1) @ '')'')
                     path (lineNumber h) (level h) lastLevel]
                else violations)
         in (violations', level h, count')))"

definition validateFileHierarchy ::
  "summary \<Rightarrow> heading list \<Rightarrow> string \<Rightarrow> violation list \<times> summary" where
  "validateFileHierarchy results headings path =
     (case foldl (checkHeading path) ([], 0, 0) headings of
        (violations, lastLevel, count) \<Rightarrow>
          if count > 1 then
            (violations @
               [MultipleH1 (''Multiple H1 headings found ('' @ numStr count @ '' total)'')
                  path count],
             \<lparr>h1Count = h1Count results + count,
              multipleH1Files = multipleH1Files results @ [path]\<rparr>)
          else
            (violations, results\<lparr>h1Count := h1Count results + count\<rparr>))"

definition emptySummary :: summary where
  "emptySummary = \<lparr>h1Count = 0, multipleH1Files = []\<rparr>"

definition isMultipleH1 :: "violation \<Rightarrow> bool" where
  "isMultipleH1 v = (case v of MultipleH1 m p c \<Rightarrow> True | HierarchySkip m p n l q \<Rightarrow> False)"

text \<open>A heading event of the given level, as \<open>extractHeadings\<close> would record it.\<close>

definition headingAt :: "int \<Rightarrow> nat \<Rightarrow> heading" where
  "headingAt l n =
     \<lparr>level = l, headingType = ''html'', matchText = ''<h'' @ numStr l @ ''>'',
      lineNumber = n, filePath = ''page.tsx''\<rparr>"

text \<open>
  Counting tags in a file: the matches of a pattern over the whole content, those whose
  digit is 1, and the level-1 events of a heading list.
\<close>

definition tagCount :: "headingPattern \<Rightarrow> string \<Rightarrow> nat" where
  "tagCount pat content = length (execAll pat content 0)"

definition h1TagCount :: "headingPattern \<Rightarrow> string \<Rightarrow> nat" where
  "h1TagCount pat content =
     length (filter (\<lambda>(i, m, g). parseInt g = 1) (execAll pat content 0))"

definition h1Events :: "heading list \<Rightarrow> nat" where
  "h1Events hs = length (filter (\<lambda>h. level h = 1) hs)"


section \<open>Facts about the tracker\<close>

lemma registerHeading_returned: "returned (registerHeading e c l) = None"
  by (simp add: registerHeading_def)

lemma registerHeading_nextLevel: "nextLevel (registerHeading e c l) = l"
  by (simp add: registerHeading_def)

lemma registerHeading_silent:
  "e \<noteq> ''development'' \<Longrightarrow> warned (registerHeading e c l) = []"
  by (simp add: registerHeading_def)

lemma registerHeading_quiet: "l \<le> c + 1 \<Longrightarrow> warned (registerHeading e c l) = []"
  by (simp add: registerHeading_def)

lemma registerHeading_warns:
  "l > c + 1 \<Longrightarrow>
   warned (registerHeading ''development'' c l) =
     [''Heading hierarchy violation: Jumping from H'' @ numStr c @
      '' to H'' @ numStr l @ ''. '' @
      ''Consider using H'' @ numStr (c + 1) @ '' instead.'']"
  by (simp add: registerHeading_def)

lemma registerHeading_flags:
  "(warned (registerHeading ''development'' c l) \<noteq> []) = (l > c + 1)"
  by (simp add: registerHeading_def)

lemma effectPass_stored: "snd (effectPass e c ls) = last (c # ls)"
  by (simp add: effectPass_def registerHeading_nextLevel)

lemma registerAll_passes:
  "registerAll e c ls =
     (if snd (effectPass e c ls) = c then effectPass e c ls
      else (fst (effectPass e c ls) @ fst (effectPass e (snd (effectPass e c ls)) ls),
            snd (effectPass e (snd (effectPass e c ls)) ls)))"
  by (cases "effectPass e c ls"; cases "effectPass e (snd (effectPass e c ls)) ls")
     (simp add: registerAll_def)

lemma registerAll_final: "snd (registerAll e c ls) = last (c # ls)"
proof -
  have second: "snd (effectPass e (snd (effectPass e c ls)) ls) = last (c # ls)"
    by (cases ls) (simp_all add: effectPass_stored)
  show ?thesis
  proof (cases "snd (effectPass e c ls) = c")
    case True
    with effectPass_stored[of e c ls] show ?thesis
      by (simp add: registerAll_passes)
  next
    case False
    with second show ?thesis
      by (simp add: registerAll_passes)
  qed
qed

lemma useMember_register: "useMember e c (CallRegisterHeading k) = k"
  by (simp add: useMember_def registerHeading_nextLevel)

lemma useMember_read: "useMember e c ReadLevel = c"
  by (simp add: useMember_def)

lemma numStr_digit:
  "numStr 0 = ''0''" "numStr 1 = ''1''" "numStr 2 = ''2''" "numStr 3 = ''3''"
  "numStr 4 = ''4''" "numStr 5 = ''5''" "numStr 6 = ''6''" "numStr 7 = ''7''"
  by (simp_all add: numStr_def natStr.simps digitChar_def)


section \<open>Facts about the tree audit\<close>

lemma headingTag_cases:
  "isHeadingTag t \<longleftrightarrow> t \<in> {''h1'', ''h2'', ''h3'', ''h4'', ''h5'', ''h6''}"
  by (auto simp: isHeadingTag_def split: list.splits)

lemma headingTag_upper:
  "isHeadingTag t \<Longrightarrow> toUpperCase t = ''H'' @ numStr (parseInt (charAt t 1))"
  by (auto simp: headingTag_cases toUpperCase_def upperChar_def parseInt_def charAt_def
      isDigit_def digitValue_def numStr_digit)

lemma visitElement_levels:
  "visitElement (errs, p) ty =
     (errs @ auditMessages p (headingLevel ty), last (p # headingLevel ty))"
  by (cases ty) (auto simp: visitElement_def headingLevel_def Let_def headingTag_upper)

lemma auditMessages_append:
  "auditMessages p (xs @ ys) = auditMessages p xs @ auditMessages (last (p # xs)) ys"
  by (induction xs arbitrary: p) auto

lemma traverse_levels:
  "auditable n \<Longrightarrow>
     traverse st n =
       Inr (fst st @ auditMessages (snd st) (levelsOf n), last (snd st # levelsOf n))"
  "validChildren c \<Longrightarrow>
     childrenForEach st c =
       Inr (fst st @ auditMessages (snd st) (levelsOfChildren c),
            last (snd st # levelsOfChildren c))"
  "validItems xs \<Longrightarrow>
     childrenForEachItems st xs =
       Inr (fst st @ auditMessages (snd st) (levelsOfItems xs),
            last (snd st # levelsOfItems xs))"
proof (induction st n and st c and st xs
    rule: traverse_childrenForEach_childrenForEachItems.induct)
  case (1 st ty children)
  obtain errs p where st: "st = (errs, p)" by (cases st)
  show ?case
  proof (cases "truthy children")
    case True
    with 1 st show ?thesis
      by (simp add: visitElement_levels auditMessages_append)
  next
    case False
    with st show ?thesis by (simp add: visitElement_levels)
  qed
next
  case (20 st x xs)
  then show ?case by (simp add: auditMessages_append)
qed simp_all

lemma traverse_raises:
  "\<not> auditable n \<Longrightarrow> traverse st n = Inl ObjectsNotValidAsChild"
  "\<not> validChildren c \<Longrightarrow> childrenForEach st c = Inl ObjectsNotValidAsChild"
  "\<not> validItems xs \<Longrightarrow> childrenForEachItems st xs = Inl ObjectsNotValidAsChild"
proof (induction st n and st c and st xs
    rule: traverse_childrenForEach_childrenForEachItems.induct)
  case (1 st ty children)
  then show ?case by (cases "truthy children") simp_all
next
  case (20 st x xs)
  show ?case
  proof (cases "validChildren x")
    case True
    with "20.prems" have "\<not> validItems xs" by simp
    with True "20.IH"(2) traverse_levels(2)[OF True, of st] show ?thesis by simp
  next
    case False
    with "20.IH"(1) show ?thesis by simp
  qed
qed simp_all

lemma validate_levels:
  "auditable t \<Longrightarrow> validateHeadingHierarchy t = Inr (auditMessages 0 (levelsOf t))"
  by (simp add: validateHeadingHierarchy_def traverse_levels(1))

lemma validate_raises:
  "\<not> auditable t \<Longrightarrow> validateHeadingHierarchy t = Inl ObjectsNotValidAsChild"
  by (simp add: validateHeadingHierarchy_def traverse_raises(1))

lemma auditMessages_legal: "(auditMessages p ls = []) = stepwiseLegal p ls"
  by (induction ls arbitrary: p) auto


section \<open>Facts about the command-line audit\<close>

lemma upperChar_h: "upperChar CHR ''h'' = CHR ''H''" "upperChar CHR ''H'' = CHR ''H''"
  by (simp_all add: upperChar_def)

lemma letterMatches_component:
  "letterMatches componentPattern c = letterMatches jsxPattern c"
  "letterMatches componentSelfClosingPattern c = letterMatches selfClosingPattern c"
  by (simp_all add: letterMatches_def componentPattern_def jsxPattern_def
      componentSelfClosingPattern_def selfClosingPattern_def upperChar_h)

lemma closingSlash_component:
  "closingSlash componentPattern = closingSlash jsxPattern"
  "closingSlash componentSelfClosingPattern = closingSlash selfClosingPattern"
  by (simp_all add: componentPattern_def jsxPattern_def
      componentSelfClosingPattern_def selfClosingPattern_def)

lemma matchHere_component: "matchHere componentPattern s = matchHere jsxPattern s"
  unfolding matchHere_def letterMatches_component closingSlash_component ..

lemma matchHere_componentSelfClosing:
  "matchHere componentSelfClosingPattern s = matchHere selfClosingPattern s"
  unfolding matchHere_def letterMatches_component closingSlash_component ..

lemma search_cong:
  assumes "\<And>s. matchHere p s = matchHere q s"
  shows "search p s k = search q s k"
  by (induction s arbitrary: k) (simp_all add: assms split: option.splits)

lemma execAll_cong:
  assumes "\<And>s. matchHere p s = matchHere q s"
  shows "execAll p content k = execAll q content k"
proof (induction "length content - k" arbitrary: k rule: less_induct)
  case less
  have e: "exec p content k = exec q content k"
    by (simp add: exec_def search_cong[of p q, OF assms])
  show ?case
  proof (cases "exec q content k")
    case None
    with e show ?thesis by (simp add: execAll.simps[of p] execAll.simps[of q])
  next
    case (Some r)
    obtain i m g where r: "r = (i, m, g)" by (cases r)
    from Some r exec_progress[of q content k i m g]
    have "length content - (i + length m) < length content - k" by simp
    from less[OF this] Some r e show ?thesis
      by (simp add: execAll.simps[of p content k] execAll.simps[of q content k])
  qed
qed

lemma execAll_component:
  "execAll componentPattern content k = execAll jsxPattern content k"
  "execAll componentSelfClosingPattern content k = execAll selfClosingPattern content k"
  by (rule execAll_cong, rule matchHere_component)
     (rule execAll_cong, rule matchHere_componentSelfClosing)

lemma length_patternHeadings:
  "length (patternHeadings content path (k, p)) = tagCount p content"
  by (simp add: patternHeadings_def tagCount_def)

lemma h1Events_map:
  "length (filter (\<lambda>h. level h = 1)
       (map (\<lambda>(i, m, g). \<lparr>level = parseInt g, headingType = ty,
             matchText = m, lineNumber = lineNumberAt content i, filePath = path\<rparr>) xs))
     = length (filter (\<lambda>(i, m, g). parseInt g = 1) xs)"
  by (induction xs) auto

lemma h1Events_patternHeadings:
  "h1Events (patternHeadings content path (k, p)) = h1TagCount p content"
  by (simp only: h1Events_def patternHeadings_def h1TagCount_def h1Events_map fst_conv snd_conv)

lemma tagCount_component:
  "tagCount componentPattern c = tagCount jsxPattern c"
  "tagCount componentSelfClosingPattern c = tagCount selfClosingPattern c"
  "h1TagCount componentPattern c = h1TagCount jsxPattern c"
  "h1TagCount componentSelfClosingPattern c = h1TagCount selfClosingPattern c"
  by (simp_all add: tagCount_def h1TagCount_def execAll_component)

lemma length_extractHeadings:
  "length (extractHeadings content path) =
     2 * tagCount jsxPattern content + 2 * tagCount selfClosingPattern content"
  by (simp add: extractHeadings_def HEADING_PATTERNS_def length_patternHeadings
      tagCount_component)

lemma h1Events_append: "h1Events (xs @ ys) = h1Events xs + h1Events ys"
  by (simp add: h1Events_def)

lemma h1Events_sort: "h1Events (sort_key f xs) = h1Events xs"
  by (simp add: h1Events_def filter_sort)

lemma h1Events_extractHeadings:
  "h1Events (extractHeadings content path) =
     2 * h1TagCount jsxPattern content + 2 * h1TagCount selfClosingPattern content"
  by (simp add: extractHeadings_def HEADING_PATTERNS_def h1Events_sort h1Events_append
      h1Events_patternHeadings tagCount_component)

lemma foldl_checkHeading_count:
  "snd (snd (foldl (checkHeading path) (vs, p, c) hs)) = c + int (h1Events hs)"
  by (induction hs arbitrary: vs p c) (auto simp: checkHeading_def h1Events_def Let_def)

lemma foldl_checkHeading_multiple:
  "filter isMultipleH1 (fst (foldl (checkHeading path) (vs, p, c) hs)) =
     filter isMultipleH1 vs"
  by (induction hs arbitrary: vs p c) (auto simp: checkHeading_def isMultipleH1_def Let_def)

lemma checkHeading_flags:
  "(fst (checkHeading path (vs, p, c) h) \<noteq> vs) = (level h > p + 1)"
  by (simp add: checkHeading_def Let_def)

lemma validateFileHierarchy_h1Count:
  "h1Count (snd (validateFileHierarchy r hs path)) = h1Count r + int (h1Events hs)"
proof -
  obtain vs p c where f: "foldl (checkHeading path) ([], 0, 0) hs = (vs, p, c)"
    by (cases "foldl (checkHeading path) ([], 0, 0) hs") auto
  with foldl_checkHeading_count[of path "[]" 0 0 hs] have "c = int (h1Events hs)" by simp
  with f show ?thesis by (simp add: validateFileHierarchy_def)
qed

lemma validateFileHierarchy_multiple:
  "filter isMultipleH1 (fst (validateFileHierarchy r hs path)) =
     (if h1Events hs > 1 then
        [MultipleH1
           (''Multiple H1 headings found ('' @ numStr (int (h1Events hs)) @ '' total)'')
           path (int (h1Events hs))]
      else [])"
proof -
  obtain vs p c where f: "foldl (checkHeading path) ([], 0, 0) hs = (vs, p, c)"
    by (cases "foldl (checkHeading path) ([], 0, 0) hs") auto
  with foldl_checkHeading_count[of path "[]" 0 0 hs] have c: "c = int (h1Events hs)" by simp
  from f foldl_checkHeading_multiple[of path "[]" 0 0 hs] have "filter isMultipleH1 vs = []"
    by simp
  with f c show ?thesis by (simp add: validateFileHierarchy_def isMultipleH1_def)
qed

section \<open>The claims\<close>

subsection \<open>C5: the per-step rule\<close>

text \<open>
  C5. The skip rule is a total function of the prior and the observed level: a violation
  is reported exactly when the observed level exceeds the prior level plus one, and a
  level shallower than or equal to the prior one is never reported. This is shown at the
  three places where the rule is written: \<open>registerHeading\<close> (in development, where
  the rule is evaluated), the loop body of \<open>validateFileHierarchy\<close>, and the heading
  branch of the tree audit. It holds for all integers, in particular for a prior level in
  \<open>0..6\<close> and an observed level in \<open>1..6\<close>.
\<close>

theorem C5_skip_rule:
  "(warned (registerHeading ''development'' prior observed) \<noteq> []) = (observed > prior + 1)
   \<and> (fst (checkHeading path (vs, prior, c) h) \<noteq> vs) = (level h > prior + 1)
   \<and> (isHeadingTag t \<longrightarrow>
        (fst (visitElement (errs, prior) (Tag t)) \<noteq> errs) =
          (parseInt (charAt t 1) > prior + 1))
   \<and> (observed \<le> prior \<longrightarrow> warned (registerHeading nodeEnv prior observed) = [])
   \<and> (level h \<le> prior \<longrightarrow> fst (checkHeading path (vs, prior, c) h) = vs)"
proof -
  have a: "(warned (registerHeading ''development'' prior observed) \<noteq> []) =
      (observed > prior + 1)"
    by (rule registerHeading_flags)
  have b: "(fst (checkHeading path (vs, prior, c) h) \<noteq> vs) = (level h > prior + 1)"
    by (rule checkHeading_flags)
  have d: "isHeadingTag t \<longrightarrow>
      (fst (visitElement (errs, prior) (Tag t)) \<noteq> errs) = (parseInt (charAt t 1) > prior + 1)"
    by (simp add: visitElement_levels headingLevel_def)
  have e: "observed \<le> prior \<longrightarrow> warned (registerHeading nodeEnv prior observed) = []"
    by (simp add: registerHeading_quiet)
  have f: "level h \<le> prior \<longrightarrow> fst (checkHeading path (vs, prior, c) h) = vs"
    using b by auto
  from a b d e f show ?thesis by blast
qed

theorem C5_skip_rule_witness:
  "isHeadingTag ''h4'' \<and> (2::int) \<le> 3
   \<and> warned (registerHeading ''development'' 3 2) = []
   \<and> fst (visitElement ([], 3) (Tag ''h4'')) = []
   \<and> level (headingAt 2 1) \<le> 3
   \<and> fst (checkHeading ''page.tsx'' ([], 3, 0) (headingAt 2 1)) = []"
proof -
  have t: "isHeadingTag ''h4''" by (simp add: isHeadingTag_def)
  have p: "parseInt (charAt ''h4'' 1) = 4"
    by (simp add: parseInt_def charAt_def isDigit_def digitValue_def)
  have l: "level (headingAt 2 1) = 2" by (simp add: headingAt_def)
  from C5_skip_rule[of 3 2 "''page.tsx''" "[]" 0 "headingAt 2 1" "''h4''" "[]" "''development''"]
    t p l
  show ?thesis by simp
qed

subsection \<open>C8: the text of a skip message\<close>

text \<open>
  C8. The claim: a reported skip names the prior and the observed level and suggests
  the prior level plus one, and the sequence \<open>[1,4]\<close> on a fresh scope yields exactly one
  violation, with observed level 4 and prior level 1, that suggests level 2. The
  documentation prints this very warning ("Jumping from H1 to H4. Consider using H2
  instead.") and the unit test expects a warning "about jumping from H1 to H4".

  The code at that input: an H1 and an H4 under one provider are both checked by the
  function of the first render, which reads level 0. It logs one warning, but from H0 to
  H4 and with the suggestion H1; the re-render against the stored level 4 logs nothing.
  The tree audit, which updates its own \<open>lastLevel\<close> at once, reports the same two
  headings as the claim says.
\<close>

theorem C8_stale_prior:
  "registerAll ''development'' (mountProvider None) [1, 4] =
     ([''Heading hierarchy violation: Jumping from H0 to H4. Consider using H1 instead.''], 4)
   \<and> validateHeadingHierarchy (pageOf [1, 4]) =
       Inr [''Heading hierarchy violation: Found H4 after H1. Consider using H2 instead.'']"
proof -
  have a: "registerAll ''development'' (mountProvider None) [1, 4] =
     ([''Heading hierarchy violation: Jumping from H0 to H4. Consider using H1 instead.''], 4)"
    by (simp add: registerAll_def effectPass_def registerHeading_def mountProvider_def
        numStr_digit)
  have b: "validateHeadingHierarchy (pageOf [1, 4]) =
       Inr [''Heading hierarchy violation: Found H4 after H1. Consider using H2 instead.'']"
    by code_simp
  from a b show ?thesis by blast
qed

subsection \<open>C1: what a registration stores\<close>

text \<open>
  The claim says that a registration stores the maximum of the stored and the new level.
  \<open>registerHeading\<close> calls \<open>setCurrentLevel(level)\<close>: from depth 3, registering level 1
  stores 1, not 3, and after \<open>[1,2,3,1]\<close> the stored level is 1.
\<close>

theorem C1_counterexample:
  "nextLevel (registerHeading ''development'' 3 1) = 1
   \<and> max (3::int) 1 = 3
   \<and> snd (registerAll ''development'' (mountProvider None) [1, 2, 3, 1]) = 1"
  by (simp add: registerHeading_def mountProvider_def registerAll_def effectPass_def)

text \<open>
  C1 (amended). Each \<open>registerHeading\<close> call stores the level it is given, in every
  configuration; in development it checks that level against the stored one. So after a
  registration sequence the stored level is the last level registered (the initial one
  when nothing was registered): it follows the headings down as well as up.
\<close>

theorem C1_last_level:
  "nextLevel (registerHeading nodeEnv currentLevel l) = l
   \<and> (warned (registerHeading ''development'' currentLevel l) \<noteq> []) = (l > currentLevel + 1)
   \<and> snd (registerAll nodeEnv currentLevel ls) = last (currentLevel # ls)"
  using registerHeading_nextLevel[of nodeEnv currentLevel l]
    registerHeading_flags[of currentLevel l] registerAll_final[of nodeEnv currentLevel ls]
  by blast

subsection \<open>C2: the first heading of a fresh scope\<close>

text \<open>
  The claim says that the first heading of a fresh scope is never reported and that
  \<open>[2,4]\<close> gives one violation. The rule compares with \<open>0 + 1\<close> like anywhere else:
  a first heading of level 2 is reported, and \<open>[2,4]\<close> gives two violations, in the
  tracker and in the tree audit.
\<close>

theorem C2_counterexample:
  "warned (registerHeading ''development'' (mountProvider None) 2) =
     [''Heading hierarchy violation: Jumping from H0 to H2. Consider using H1 instead.'']
   \<and> length (fst (registerAll ''development'' (mountProvider None) [2, 4])) = 2
   \<and> validateHeadingHierarchy (pageOf [2, 4]) =
       Inr [''Heading hierarchy violation: Found H2 after H0. Consider using H1 instead.'',
            ''Heading hierarchy violation: Found H4 after H2. Consider using H3 instead.'']"
proof -
  have a: "warned (registerHeading ''development'' (mountProvider None) 2) =
     [''Heading hierarchy violation: Jumping from H0 to H2. Consider using H1 instead.'']"
    by (simp add: registerHeading_def mountProvider_def numStr_digit)
  have b: "length (fst (registerAll ''development'' (mountProvider None) [2, 4])) = 2"
    by (simp add: registerAll_def effectPass_def registerHeading_def mountProvider_def)
  have c: "validateHeadingHierarchy (pageOf [2, 4]) =
       Inr [''Heading hierarchy violation: Found H2 after H0. Consider using H1 instead.'',
            ''Heading hierarchy violation: Found H4 after H2. Consider using H3 instead.'']"
    by code_simp
  from a b c show ?thesis by blast
qed

text \<open>
  C2 (amended). On a scope created with initial depth 0 the first registration is
  reported (in development) exactly when its level is above 1: only level 1 is a legal
  start. Mounting the headings \<open>[2,4]\<close> on a fresh scope gives two warnings, the first
  of them for the 2 after 0. The audit of every tree whose heading sequence is \<open>[2,4]\<close>
  and in which no element has a plain object among its children returns two violations,
  H2 after H0 and H4 after H2.
\<close>

theorem C2_first_heading:
  "(warned (registerHeading ''development'' (mountProvider None) l) \<noteq> []) = (l > 1)
   \<and> length (fst (registerAll ''development'' (mountProvider None) [2, 4])) = 2
   \<and> hd (fst (registerAll ''development'' (mountProvider None) [2, 4])) =
       ''Heading hierarchy violation: Jumping from H0 to H2. Consider using H1 instead.''
   \<and> (auditable tree \<and> levelsOf tree = [2, 4] \<longrightarrow>
       validateHeadingHierarchy tree =
         Inr [''Heading hierarchy violation: Found H2 after H0. Consider using H1 instead.'',
              ''Heading hierarchy violation: Found H4 after H2. Consider using H3 instead.''])"
proof -
  have a: "(warned (registerHeading ''development'' (mountProvider None) l) \<noteq> []) = (l > 1)"
    using registerHeading_flags[of 0 l] by (simp add: mountProvider_def)
  have b: "length (fst (registerAll ''development'' (mountProvider None) [2, 4])) = 2"
    by (simp add: registerAll_def effectPass_def registerHeading_def mountProvider_def)
  have b': "hd (fst (registerAll ''development'' (mountProvider None) [2, 4])) =
       ''Heading hierarchy violation: Jumping from H0 to H2. Consider using H1 instead.''"
    by (simp add: registerAll_def effectPass_def registerHeading_def mountProvider_def
        numStr_digit)
  have c: "auditable tree \<and> levelsOf tree = [2, 4] \<longrightarrow>
       validateHeadingHierarchy tree =
         Inr [''Heading hierarchy violation: Found H2 after H0. Consider using H1 instead.'',
              ''Heading hierarchy violation: Found H4 after H2. Consider using H3 instead.'']"
    by (simp add: validate_levels numStr_digit)
  from a b b' c show ?thesis by blast
qed

theorem C2_first_heading_witness:
  "auditable (pageOf [2, 4]) \<and> levelsOf (pageOf [2, 4]) = [2, 4]
   \<and> validateHeadingHierarchy (pageOf [2, 4]) =
       Inr [''Heading hierarchy violation: Found H2 after H0. Consider using H1 instead.'',
            ''Heading hierarchy violation: Found H4 after H2. Consider using H3 instead.'']"
proof -
  have w: "auditable (pageOf [2, 4])" by code_simp
  have l: "levelsOf (pageOf [2, 4]) = [2, 4]" by code_simp
  from C2_first_heading[of 1 "pageOf [2, 4]"] w l show ?thesis by blast
qed

subsection \<open>C3: sequences without a reported skip\<close>

text \<open>
  The claim measures each heading against the deepest level seen so far and names
  \<open>[1,2,1,3]\<close> as a sequence without violation. The audit measures against the heading
  just before: it reports the 3 after the 1.
\<close>

theorem C3_counterexample:
  "validateHeadingHierarchy (pageOf [1, 2, 1, 3]) =
     Inr [''Heading hierarchy violation: Found H3 after H1. Consider using H2 instead.'']"
  by code_simp

text \<open>
  C3 (amended). Take a tree in which no element has a plain object among its children.
  Its audit returns the empty list exactly when each element of its heading sequence is
  at most one level deeper than the element just before it (than 0 for the first);
  back-steps of any size are allowed. \<open>[1,2,3,2,3]\<close> is such a sequence, \<open>[1,2,1,3]\<close>
  is not. A single \<open>registerHeading\<close> call whose level is at most one deeper than the
  level it is checked against logs nothing, in any configuration.
\<close>

theorem C3_stepwise:
  "(auditable tree \<longrightarrow>
      (validateHeadingHierarchy tree = Inr []) = stepwiseLegal 0 (levelsOf tree))
   \<and> stepwiseLegal 0 [1, 2, 3, 2, 3]
   \<and> \<not> stepwiseLegal 0 [1, 2, 1, 3]
   \<and> (l \<le> currentLevel + 1 \<longrightarrow> warned (registerHeading nodeEnv currentLevel l) = [])"
proof -
  have c: "auditable tree \<longrightarrow>
        (validateHeadingHierarchy tree = Inr []) = stepwiseLegal 0 (levelsOf tree)"
    by (simp add: validate_levels auditMessages_legal)
  have d: "stepwiseLegal 0 [1, 2, 3, 2, 3]" by simp
  have e: "\<not> stepwiseLegal 0 [1, 2, 1, 3]" by simp
  have f: "l \<le> currentLevel + 1 \<longrightarrow> warned (registerHeading nodeEnv currentLevel l) = []"
    by (simp add: registerHeading_quiet)
  from c d e f show ?thesis by blast
qed

theorem C3_stepwise_witness:
  "auditable (pageOf [1, 2, 3, 2, 3])
   \<and> levelsOf (pageOf [1, 2, 3, 2, 3]) = [1, 2, 3, 2, 3]
   \<and> validateHeadingHierarchy (pageOf [1, 2, 3, 2, 3]) = Inr []
   \<and> (2::int) \<le> 3 + 1
   \<and> warned (registerHeading ''development'' 3 2) = []"
proof -
  have w: "auditable (pageOf [1, 2, 3, 2, 3])" by code_simp
  have l: "levelsOf (pageOf [1, 2, 3, 2, 3]) = [1, 2, 3, 2, 3]" by code_simp
  from C3_stepwise[of "pageOf [1, 2, 3, 2, 3]" 2 3 "''development''"] w l
  show ?thesis by simp
qed

subsection \<open>C6: development and production\<close>

text \<open>
  The claim says that \<open>register\<close> returns the violation report in both configurations.
  \<open>registerHeading\<close> returns nothing: at prior level 1 and level 4, where the rule
  flags a skip, the caller receives \<open>undefined\<close> in development and in production, and
  production does not log either.
\<close>

theorem C6_counterexample:
  "(1::int) + 1 < 4
   \<and> returned (registerHeading ''development'' 1 4) = None
   \<and> returned (registerHeading ''production'' 1 4) = None
   \<and> warned (registerHeading ''production'' 1 4) = []"
  by (simp add: registerHeading_def)

text \<open>
  C6 (amended). For every scope and level, \<open>registerHeading\<close> returns nothing in every
  configuration and stores the same level in every configuration. The configurations
  differ only in the warning: outside development nothing is logged, in development a
  warning is logged exactly when the level exceeds the stored level plus one. A violation
  is observable only as that development warning.
\<close>

theorem C6_void:
  "returned (registerHeading nodeEnv currentLevel l) = None
   \<and> nextLevel (registerHeading nodeEnv currentLevel l) =
       nextLevel (registerHeading ''development'' currentLevel l)
   \<and> (nodeEnv \<noteq> ''development'' \<longrightarrow> warned (registerHeading nodeEnv currentLevel l) = [])
   \<and> (warned (registerHeading ''development'' currentLevel l) \<noteq> []) = (l > currentLevel + 1)"
  using registerHeading_returned[of nodeEnv currentLevel l]
    registerHeading_nextLevel[of nodeEnv currentLevel l]
    registerHeading_nextLevel[of "''development''" currentLevel l]
    registerHeading_silent[of nodeEnv currentLevel l]
    registerHeading_flags[of currentLevel l]
  by simp

theorem C6_void_witness:
  "''production'' \<noteq> ''development''
   \<and> warned (registerHeading ''production'' 1 4) = []
   \<and> returned (registerHeading ''production'' 1 4) = None
   \<and> warned (registerHeading ''development'' 1 4) \<noteq> []"
  using C6_void[of "''production''" 1 4] by simp

subsection \<open>C10: resetting a scope\<close>

text \<open>
  The claim says that the tracker offers an operation after which, for every scope and
  every history, the next registration is evaluated as on a scope just created. The
  context has the members \<open>level\<close> and \<open>registerHeading\<close> and nothing else, and no use of
  either does that: reading \<open>level\<close> leaves the stored level where the history put it,
  and \<open>registerHeading(k)\<close> stores \<open>k\<close>, which is not the initial depth of every scope.
\<close>

theorem C10_counterexample:
  "\<not> (\<exists>m. \<forall>initial history l.
         registerHeading ''development''
           (useMember ''development'' (foldl (useMember ''development'') initial history) m) l =
         registerHeading ''development'' initial l)"
proof
  assume "\<exists>m. \<forall>initial history l.
         registerHeading ''development''
           (useMember ''development'' (foldl (useMember ''development'') initial history) m) l =
         registerHeading ''development'' initial l"
  then obtain m where m: "\<And>initial history l.
         registerHeading ''development''
           (useMember ''development'' (foldl (useMember ''development'') initial history) m) l =
         registerHeading ''development'' initial l"
    by blast
  show False
  proof (cases m)
    case ReadLevel
    from m[of 0 "[CallRegisterHeading 3]" 2]
    have "warned (registerHeading ''development'' 3 2) =
          warned (registerHeading ''development'' 0 2)"
      by (simp add: ReadLevel useMember_read useMember_register)
    then show False by (simp add: registerHeading_def)
  next
    case (CallRegisterHeading k)
    from m[of "k + 2" "[]" "k + 2"]
    have "warned (registerHeading ''development'' k (k + 2)) =
          warned (registerHeading ''development'' (k + 2) (k + 2))"
      by (simp add: CallRegisterHeading useMember_register)
    then show False by (simp add: registerHeading_def)
  qed
qed

text \<open>
  C10 (amended). The tracker has no reset operation: its context has only the members
  \<open>level\<close> and \<open>registerHeading\<close>, and neither of them brings every scope back to its
  initial depth. After any history, using a member leaves the scope at its initial depth
  only if the member is \<open>registerHeading\<close> called with that very depth, or \<open>level\<close> read
  on a scope that is at its initial depth already; a registration stores its own level.
  A scope gets an initial depth (0 by default) only when its provider is mounted.
\<close>

theorem C10_no_reset:
  "(useMember nodeEnv (foldl (useMember nodeEnv) initial history) m = initial) =
     (m = CallRegisterHeading initial \<or>
      (m = ReadLevel \<and> foldl (useMember nodeEnv) initial history = initial))
   \<and> \<not> (\<forall>depth uses. useMember nodeEnv (foldl (useMember nodeEnv) depth uses) m = depth)
   \<and> foldl (useMember nodeEnv) initial (history @ [CallRegisterHeading k]) = k
   \<and> mountProvider None = 0 \<and> mountProvider (Some d) = d"
proof -
  have a: "(useMember nodeEnv (foldl (useMember nodeEnv) initial history) m = initial) =
     (m = CallRegisterHeading initial \<or>
      (m = ReadLevel \<and> foldl (useMember nodeEnv) initial history = initial))"
    by (cases m) (auto simp: useMember_read useMember_register)
  have b: "\<not> (\<forall>depth uses. useMember nodeEnv (foldl (useMember nodeEnv) depth uses) m = depth)"
  proof
    assume h: "\<forall>depth uses. useMember nodeEnv (foldl (useMember nodeEnv) depth uses) m = depth"
    show False
    proof (cases m)
      case ReadLevel
      from h have "useMember nodeEnv (foldl (useMember nodeEnv) 0 [CallRegisterHeading 3]) m = 0"
        by blast
      then show False by (simp add: ReadLevel useMember_read useMember_register)
    next
      case (CallRegisterHeading k)
      from h have "useMember nodeEnv (foldl (useMember nodeEnv) (k + 1) []) m = k + 1"
        by blast
      then show False by (simp add: CallRegisterHeading useMember_register)
    qed
  qed
  have c: "foldl (useMember nodeEnv) initial (history @ [CallRegisterHeading k]) = k"
    by (simp add: useMember_register)
  have d: "mountProvider None = 0 \<and> mountProvider (Some d) = d"
    by (simp add: mountProvider_def)
  from a b c d show ?thesis by blast
qed

subsection \<open>C9: the tree audit on arbitrary trees\<close>

text \<open>
  The claim says that the audit never throws, whatever the tree. The audit hands the
  children of every element to \<open>React.Children.forEach\<close> and does not catch what that
  raises: an element whose children are a plain object makes the audit throw, and the
  violations collected before are lost with it.
\<close>

theorem C9_counterexample:
  "validateHeadingHierarchy (Element (Tag ''div'') PlainObject) = Inl ObjectsNotValidAsChild
   \<and> validateHeadingHierarchy
       (Element (Tag ''div'') (Array [headingElement 4, Element Component PlainObject])) =
         Inl ObjectsNotValidAsChild"
  by (simp add: validateHeadingHierarchy_def headingElement_def)

text \<open>
  C9 (amended). The audit reads nothing but its argument and writes nothing but its
  result, so auditing the same tree twice gives the same list. It returns a list exactly
  for the trees in which no element has a plain object among its children; the list is
  then determined by the heading sequence of the tree, and it is empty when the tree has
  no heading. Values that are not elements (text, numbers, \<open>null\<close>, a DOM node given as
  the root) and elements that are not \<open>h1 .. h6\<close> are passed over without error.
\<close>

theorem C9_audit_returns:
  "(\<exists>errors. validateHeadingHierarchy tree = Inr errors) = auditable tree
   \<and> (auditable tree \<longrightarrow>
        validateHeadingHierarchy tree = Inr (auditMessages 0 (levelsOf tree)))
   \<and> (auditable tree \<and> levelsOf tree = [] \<longrightarrow> validateHeadingHierarchy tree = Inr [])"
proof (cases "auditable tree")
  case True
  then show ?thesis by (simp add: validate_levels)
next
  case False
  then show ?thesis by (simp add: validate_raises)
qed

theorem C9_audit_returns_witness:
  "auditable (Element (Tag ''div'') (Array [Text ''hello'', Nil, Element (Tag ''h7'') Nil]))
   \<and> levelsOf (Element (Tag ''div'') (Array [Text ''hello'', Nil, Element (Tag ''h7'') Nil])) = []
   \<and> validateHeadingHierarchy
        (Element (Tag ''div'') (Array [Text ''hello'', Nil, Element (Tag ''h7'') Nil])) = Inr []
   \<and> auditable PlainObject \<and> levelsOf PlainObject = []
   \<and> validateHeadingHierarchy PlainObject = Inr []"
proof -
  have w: "auditable (Element (Tag ''div'') (Array [Text ''hello'', Nil, Element (Tag ''h7'') Nil]))"
    by simp
  have l: "levelsOf (Element (Tag ''div'') (Array [Text ''hello'', Nil, Element (Tag ''h7'') Nil])) = []"
    by (simp add: headingLevel_def isHeadingTag_def)
  from C9_audit_returns[of "Element (Tag ''div'') (Array [Text ''hello'', Nil, Element (Tag ''h7'') Nil])"]
    C9_audit_returns[of PlainObject] w l
  show ?thesis by simp
qed

subsection \<open>C4: more than one top-level heading\<close>

text \<open>
  The claim says that the static audit reports one duplicate-top-level violation per
  extra level-1 heading. The tree audit has no such rule: for the sequence \<open>[1,2,1]\<close> it
  returns nothing at all. The file audit of the command-line script has one, but it
  reports once per file: three level-1 headings give one violation, carrying the count 3.
\<close>

theorem C4_counterexample:
  "validateHeadingHierarchy (pageOf [1, 2, 1]) = Inr []
   \<and> h1Events [headingAt 1 1, headingAt 1 2, headingAt 1 3] = 3
   \<and> fst (validateFileHierarchy emptySummary
          [headingAt 1 1, headingAt 1 2, headingAt 1 3] ''page.tsx'') =
       [MultipleH1 ''Multiple H1 headings found (3 total)'' ''page.tsx'' 3]"
proof -
  have a: "validateHeadingHierarchy (pageOf [1, 2, 1]) = Inr []" by code_simp
  have b: "h1Events [headingAt 1 1, headingAt 1 2, headingAt 1 3] = 3"
    by (simp add: h1Events_def headingAt_def)
  have c: "fst (validateFileHierarchy emptySummary
          [headingAt 1 1, headingAt 1 2, headingAt 1 3] ''page.tsx'') =
       [MultipleH1 ''Multiple H1 headings found (3 total)'' ''page.tsx'' 3]"
    by (simp add: validateFileHierarchy_def checkHeading_def headingAt_def numStr_digit)
  from a b c show ?thesis by blast
qed

text \<open>
  C4 (amended). The tree audit \<open>validateHeadingHierarchy\<close> does not detect duplicate
  top-level headings: a tree whose headings are all of level 1, however many, and a tree
  with the heading sequence \<open>[1,2,1]\<close> both yield no violation. Duplicates are detected
  by the file audit \<open>validateFileHierarchy\<close> of the command-line script: a heading list
  with more than one level-1 heading yields exactly one \<open>multiple_h1\<close> violation, which
  carries the number of level-1 headings (one violation per file, not one per extra
  occurrence), and a list with at most one level-1 heading yields none. There the
  sequence \<open>[1,2,1]\<close> yields no \<open>hierarchy_skip\<close> violation and one \<open>multiple_h1\<close>
  violation.
\<close>

theorem C4_duplicates:
  "(auditable tree \<and> levelsOf tree = replicate n 1 \<longrightarrow> validateHeadingHierarchy tree = Inr [])
   \<and> (auditable tree \<and> levelsOf tree = [1, 2, 1] \<longrightarrow> validateHeadingHierarchy tree = Inr [])
   \<and> filter isMultipleH1 (fst (validateFileHierarchy results hs path)) =
       (if h1Events hs > 1 then
          [MultipleH1
             (''Multiple H1 headings found ('' @ numStr (int (h1Events hs)) @ '' total)'')
             path (int (h1Events hs))]
        else [])
   \<and> fst (validateFileHierarchy results [headingAt 1 1, headingAt 2 2, headingAt 1 3] path) =
       [MultipleH1 ''Multiple H1 headings found (2 total)'' path 2]"
proof -
  have s: "stepwiseLegal p (replicate n 1)" if "0 \<le> p" for p :: int
    using that by (induction n arbitrary: p) auto
  have a: "auditable tree \<and> levelsOf tree = replicate n 1 \<longrightarrow>
      validateHeadingHierarchy tree = Inr []"
    using s[of 0] by (simp add: validate_levels auditMessages_legal)
  have b: "auditable tree \<and> levelsOf tree = [1, 2, 1] \<longrightarrow>
      validateHeadingHierarchy tree = Inr []"
    by (simp add: validate_levels)
  have c: "filter isMultipleH1 (fst (validateFileHierarchy results hs path)) =
       (if h1Events hs > 1 then
          [MultipleH1
             (''Multiple H1 headings found ('' @ numStr (int (h1Events hs)) @ '' total)'')
             path (int (h1Events hs))]
        else [])"
    by (rule validateFileHierarchy_multiple)
  have d: "fst (validateFileHierarchy results
        [headingAt 1 1, headingAt 2 2, headingAt 1 3] path) =
       [MultipleH1 ''Multiple H1 headings found (2 total)'' path 2]"
    by (simp add: validateFileHierarchy_def checkHeading_def headingAt_def numStr_digit)
  from a b c d show ?thesis by blast
qed

theorem C4_duplicates_witness:
  "auditable (pageOf [1, 2, 1]) \<and> levelsOf (pageOf [1, 2, 1]) = [1, 2, 1]
   \<and> validateHeadingHierarchy (pageOf [1, 2, 1]) = Inr []
   \<and> auditable (pageOf [1, 1]) \<and> levelsOf (pageOf [1, 1]) = replicate 2 1
   \<and> validateHeadingHierarchy (pageOf [1, 1]) = Inr []
   \<and> filter isMultipleH1
        (fst (validateFileHierarchy emptySummary [headingAt 1 1, headingAt 1 2] ''page.tsx'')) =
       [MultipleH1 ''Multiple H1 headings found (2 total)'' ''page.tsx'' 2]
   \<and> filter isMultipleH1
        (fst (validateFileHierarchy emptySummary [headingAt 1 1, headingAt 2 2] ''page.tsx'')) = []"
proof -
  have w1: "auditable (pageOf [1, 2, 1])" by code_simp
  have l1: "levelsOf (pageOf [1, 2, 1]) = [1, 2, 1]" by code_simp
  have w2: "auditable (pageOf [1, 1])" by code_simp
  have l2: "levelsOf (pageOf [1, 1]) = replicate 2 1" by code_simp
  have e2: "h1Events [headingAt 1 1, headingAt 1 2] = 2"
    by (simp add: h1Events_def headingAt_def)
  have e1: "h1Events [headingAt 1 1, headingAt 2 2] = 1"
    by (simp add: h1Events_def headingAt_def)
  from C4_duplicates[of "pageOf [1, 2, 1]" 0 emptySummary "[headingAt 1 1, headingAt 1 2]"
      "''page.tsx''"]
    C4_duplicates[of "pageOf [1, 1]" 2 emptySummary "[headingAt 1 1, headingAt 2 2]"
      "''page.tsx''"]
    w1 l1 w2 l2 e1 e2
  show ?thesis by (simp add: numStr_digit)
qed

subsection \<open>C7: every tag is extracted more than once\<close>

text \<open>
  The claim says that a file with exactly one level-1 heading tag is counted with two
  level-1 headings. That holds for an opening tag; a self-closing tag is matched by all
  four patterns and counted four times.
\<close>

theorem C7_counterexample:
  "tagCount jsxPattern ''<H1 />'' = 1
   \<and> h1TagCount jsxPattern ''<H1 />'' = 1
   \<and> length (extractHeadings ''<H1 />'' ''page.tsx'') = 4
   \<and> h1Count (snd (validateFileHierarchy emptySummary
         (extractHeadings ''<H1 />'' ''page.tsx'') ''page.tsx'')) = 4"
  by code_simp

text \<open>
  C7 (amended). Under the \<open>i\<close> flag the \<open>component\<close> pattern finds exactly the matches
  of the \<open>jsx\<close> pattern (and \<open>componentSelfClosing\<close> those of \<open>selfClosing\<close>), so
  \<open>extractHeadings\<close> returns two events for every heading tag and two more for every
  self-closing one. The level-1 count of a file is twice its level-1 tags plus twice its
  self-closing level-1 tags: a file whose only level-1 tag is an opening tag is counted
  with 2 (with 4 when that tag is self-closing), and every file with at least one
  level-1 tag is reported with a \<open>multiple_h1\<close> violation.
\<close>

theorem C7_double_count:
  "execAll componentPattern content k = execAll jsxPattern content k
   \<and> execAll componentSelfClosingPattern content k = execAll selfClosingPattern content k
   \<and> length (extractHeadings content path) =
       2 * tagCount jsxPattern content + 2 * tagCount selfClosingPattern content
   \<and> h1Count (snd (validateFileHierarchy emptySummary (extractHeadings content path) path)) =
       int (2 * h1TagCount jsxPattern content + 2 * h1TagCount selfClosingPattern content)
   \<and> (h1TagCount jsxPattern content = 1 \<and> h1TagCount selfClosingPattern content = 0 \<longrightarrow>
        h1Count (snd (validateFileHierarchy emptySummary (extractHeadings content path) path)) = 2
        \<and> filter isMultipleH1
            (fst (validateFileHierarchy emptySummary (extractHeadings content path) path)) =
          [MultipleH1 ''Multiple H1 headings found (2 total)'' path 2])
   \<and> (1 \<le> h1TagCount jsxPattern content \<longrightarrow>
        filter isMultipleH1
          (fst (validateFileHierarchy emptySummary (extractHeadings content path) path)) \<noteq> [])"
proof -
  let ?hs = "extractHeadings content path"
  have a: "execAll componentPattern content k = execAll jsxPattern content k"
    by (rule execAll_component)
  have b: "execAll componentSelfClosingPattern content k = execAll selfClosingPattern content k"
    by (rule execAll_component)
  have c: "length ?hs = 2 * tagCount jsxPattern content + 2 * tagCount selfClosingPattern content"
    by (rule length_extractHeadings)
  have d: "h1Count (snd (validateFileHierarchy emptySummary ?hs path)) =
       int (2 * h1TagCount jsxPattern content + 2 * h1TagCount selfClosingPattern content)"
    by (simp add: validateFileHierarchy_h1Count h1Events_extractHeadings emptySummary_def)
  have e: "h1TagCount jsxPattern content = 1 \<and> h1TagCount selfClosingPattern content = 0 \<longrightarrow>
        h1Count (snd (validateFileHierarchy emptySummary ?hs path)) = 2
        \<and> filter isMultipleH1 (fst (validateFileHierarchy emptySummary ?hs path)) =
          [MultipleH1 ''Multiple H1 headings found (2 total)'' path 2]"
    using d by (simp add: validateFileHierarchy_multiple h1Events_extractHeadings numStr_digit)
  have f: "1 \<le> h1TagCount jsxPattern content \<longrightarrow>
        filter isMultipleH1 (fst (validateFileHierarchy emptySummary ?hs path)) \<noteq> []"
    by (simp add: validateFileHierarchy_multiple h1Events_extractHeadings)
  from a b c d e f show ?thesis by blast
qed

theorem C7_double_count_witness:
  "h1TagCount jsxPattern ''<h1>Title</h1>'' = 1
   \<and> h1TagCount selfClosingPattern ''<h1>Title</h1>'' = 0
   \<and> h1Count (snd (validateFileHierarchy emptySummary
         (extractHeadings ''<h1>Title</h1>'' ''page.tsx'') ''page.tsx'')) = 2
   \<and> filter isMultipleH1
        (fst (validateFileHierarchy emptySummary
           (extractHeadings ''<h1>Title</h1>'' ''page.tsx'') ''page.tsx'')) =
       [MultipleH1 ''Multiple H1 headings found (2 total)'' ''page.tsx'' 2]"
proof -
  have j: "h1TagCount jsxPattern ''<h1>Title</h1>'' = 1" by code_simp
  have s: "h1TagCount selfClosingPattern ''<h1>Title</h1>'' = 0" by code_simp
  from C7_double_count[of "''<h1>Title</h1>''" 0 "''page.tsx''"] j s
  show ?thesis by simp
qed


end
